theory Spec2Isabelle
  imports Main "HOL-Library.Word" "HOL-Library.Char_ord" "HOL-Library.List_Lexorder"
begin

section \<open>The Go primitives the framework calls\<close>

text \<open>
  Go strings are byte sequences, read as UTF-8 where runes matter; they are modelled as
  \<^typ>\<open>string\<close>. The functions of package \<open>strings\<close> that \<open>framework.go\<close> calls are
  written out here.
\<close>

subsection \<open>Package strings\<close>

definition strings_HasPrefix :: "string \<Rightarrow> string \<Rightarrow> bool" where
  "strings_HasPrefix s p = (take (length p) s = p)"

definition strings_HasSuffix :: "string \<Rightarrow> string \<Rightarrow> bool" where
  "strings_HasSuffix s p = (length p \<le> length s \<and> drop (length s - length p) s = p)"

text \<open>\<open>strings.Index\<close>: the position of the first occurrence, or \<open>-1\<close>.\<close>

fun strings_Index :: "string \<Rightarrow> string \<Rightarrow> int" where
  "strings_Index [] sub = (if sub = [] then 0 else -1)"
| "strings_Index (c # cs) sub =
     (if strings_HasPrefix (c # cs) sub then 0
      else (let r = strings_Index cs sub in if r < 0 then -1 else r + 1))"

definition strings_Contains :: "string \<Rightarrow> string \<Rightarrow> bool" where
  "strings_Contains s sub = (0 \<le> strings_Index s sub)"

text \<open>\<open>strings.Replace(s, old, new, 1)\<close>: the first occurrence only.\<close>

fun strings_Replace1 :: "string \<Rightarrow> string \<Rightarrow> string \<Rightarrow> string" where
  "strings_Replace1 [] old new = (if old = [] then new else [])"
| "strings_Replace1 (c # cs) old new =
     (if strings_HasPrefix (c # cs) old then new @ drop (length old) (c # cs)
      else c # strings_Replace1 cs old new)"

text \<open>
  \<open>strings.ReplaceAll\<close>: the occurrences that do not overlap, from the left. An empty
  \<open>old\<close> matches before every byte and at the end.
\<close>

function strings_ReplaceAll :: "string \<Rightarrow> string \<Rightarrow> string \<Rightarrow> string" where
  "strings_ReplaceAll [] old new = (if old = [] then new else [])"
| "strings_ReplaceAll (c # cs) old new =
     (if old = [] then new @ c # strings_ReplaceAll cs old new
      else if strings_HasPrefix (c # cs) old
      then new @ strings_ReplaceAll (drop (length old) (c # cs)) old new
      else c # strings_ReplaceAll cs old new)"
  by pat_completeness auto
termination
  by (relation "measure (\<lambda>(s, old, new). length s)") auto

text \<open>\<open>strings.Split(s, sep)\<close> for a separator of one byte: never the empty list.\<close>

fun strings_Split :: "string \<Rightarrow> char \<Rightarrow> string list" where
  "strings_Split [] sep = [[]]"
| "strings_Split (c # cs) sep =
     (if c = sep then [] # strings_Split cs sep
      else (case strings_Split cs sep of
              [] \<Rightarrow> [[c]]
            | p # ps \<Rightarrow> (c # p) # ps))"

text \<open>
  White space, for \<open>unicode.IsSpace\<close> and for the scanner of package \<open>fmt\<close> alike:
  tab, line feed, vertical tab, form feed, carriage return, blank, and the runes U+0085,
  U+00A0, U+1680, U+2000 to U+200A, U+2028, U+2029, U+202F, U+205F and U+3000, each by
  its bytes in UTF-8.
\<close>

definition white_space :: "string list" where
  "white_space =
     [[CHR 0x09], [CHR 0x0A], [CHR 0x0B], [CHR 0x0C], [CHR 0x0D], [CHR 0x20],
      [CHR 0xC2, CHR 0x85], [CHR 0xC2, CHR 0xA0], [CHR 0xE1, CHR 0x9A, CHR 0x80],
      [CHR 0xE2, CHR 0x80, CHR 0x80], [CHR 0xE2, CHR 0x80, CHR 0x81],
      [CHR 0xE2, CHR 0x80, CHR 0x82], [CHR 0xE2, CHR 0x80, CHR 0x83],
      [CHR 0xE2, CHR 0x80, CHR 0x84], [CHR 0xE2, CHR 0x80, CHR 0x85],
      [CHR 0xE2, CHR 0x80, CHR 0x86], [CHR 0xE2, CHR 0x80, CHR 0x87],
      [CHR 0xE2, CHR 0x80, CHR 0x88], [CHR 0xE2, CHR 0x80, CHR 0x89],
      [CHR 0xE2, CHR 0x80, CHR 0x8A], [CHR 0xE2, CHR 0x80, CHR 0xA8],
      [CHR 0xE2, CHR 0x80, CHR 0xA9], [CHR 0xE2, CHR 0x80, CHR 0xAF],
      [CHR 0xE2, CHR 0x81, CHR 0x9F], [CHR 0xE3, CHR 0x80, CHR 0x80]]"

text \<open>The white-space rune at the head of a string, if there is one.\<close>

definition leading_rune :: "string list \<Rightarrow> string \<Rightarrow> string option" where
  "leading_rune runes s = find (\<lambda>u. u \<noteq> [] \<and> strings_HasPrefix s u) runes"

function strip_leading :: "string list \<Rightarrow> string \<Rightarrow> string" where
  "strip_leading runes s =
     (case leading_rune runes s of
        None \<Rightarrow> s
      | Some u \<Rightarrow> strip_leading runes (drop (length u) s))"
  by pat_completeness auto
termination
proof (relation "measure (\<lambda>(runes, s). length s)")
  show "wf (measure (\<lambda>(runes, s). length s))"
    by simp
next
  fix runes :: "string list" and s u :: string
  assume "leading_rune runes s = Some u"
  then have "u \<noteq> []" and "strings_HasPrefix s u"
    unfolding leading_rune_def by (auto dest: find_Some_iff[THEN iffD1])
  then have "0 < length u" and "length u \<le> length s"
    unfolding strings_HasPrefix_def by (auto simp: take_eq_Nil dest: arg_cong[where f = length])
  then have "length (drop (length u) s) < length s"
    unfolding length_drop by arith
  then show "((runes, drop (length u) s), (runes, s)) \<in> measure (\<lambda>(runes, s). length s)"
    by simp
qed

declare strip_leading.simps [simp del]

text \<open>
  \<open>strings.TrimSpace\<close>: the white space at both ends goes. The trailing runes are the
  leading ones of the reversed string, read backwards.
\<close>

definition strings_TrimSpace :: "string \<Rightarrow> string" where
  "strings_TrimSpace s =
     rev (strip_leading (map rev white_space) (rev (strip_leading white_space s)))"

text \<open>
  A slice expression \<open>s[i:j]\<close> on a string panics unless \<open>0 \<le> i \<le> j \<le> len(s)\<close>;
  \<open>None\<close> is the panic.
\<close>

definition slice_str :: "string \<Rightarrow> int \<Rightarrow> int \<Rightarrow> string option" where
  "slice_str s i j =
     (if 0 \<le> i \<and> i \<le> j \<and> j \<le> int (length s)
      then Some (take (nat j - nat i) (drop (nat i) s)) else None)"

subsection \<open>Decimal text of integers\<close>

definition digit_char :: "int \<Rightarrow> char" where
  "digit_char d = ''0123456789'' ! nat d"

function int_digits :: "int \<Rightarrow> string" where
  "int_digits n = (if n < 10 then [digit_char n] else int_digits (n div 10) @ [digit_char (n mod 10)])"
  by pat_completeness auto
termination
  by (relation "measure nat") auto

declare int_digits.simps [simp del]

text \<open>The verb \<open>%d\<close>.\<close>

definition fmt_d :: "int \<Rightarrow> string" where
  "fmt_d i = (if i < 0 then CHR ''-'' # int_digits (- i) else int_digits i)"

subsection \<open>Scanning an integer: \<open>fmt.Sscanf(s, "%d", &i)\<close>\<close>

text \<open>
  \<open>Sscanf\<close> skips leading white space (a line feed there is an error), takes one optional
  sign and then the longest run of decimal digits, which must not be empty; the rest of
  the input is left unread and is no error. The token goes to
  \<open>strconv.ParseInt(tok, 10, 64)\<close>, which rejects a value outside the signed 64-bit
  range. \<open>None\<close> is a returned error: the target variable is then unchanged.
\<close>

function skip_space :: "string \<Rightarrow> string option" where
  "skip_space s =
     (if s = [] then Some []
      else if hd s = CHR 0x0A then None
      else (case leading_rune white_space s of
              None \<Rightarrow> Some s
            | Some u \<Rightarrow> skip_space (drop (length u) s)))"
  by pat_completeness auto
termination
proof (relation "measure length")
  show "wf (measure length)"
    by simp
next
  fix s u :: string
  assume "leading_rune white_space s = Some u"
  then have "u \<noteq> []" and "strings_HasPrefix s u"
    unfolding leading_rune_def by (auto dest: find_Some_iff[THEN iffD1])
  then have "0 < length u" and "length u \<le> length s"
    unfolding strings_HasPrefix_def by (auto simp: take_eq_Nil dest: arg_cong[where f = length])
  then have "length (drop (length u) s) < length s"
    unfolding length_drop by arith
  then show "(drop (length u) s, s) \<in> measure length"
    by simp
qed

declare skip_space.simps [simp del]

definition is_digit :: "char \<Rightarrow> bool" where
  "is_digit c = (CHR ''0'' \<le> c \<and> c \<le> CHR ''9'')"

definition digit_val :: "char \<Rightarrow> int" where
  "digit_val c = of_char c - 48"

definition decimal_val :: "string \<Rightarrow> int" where
  "decimal_val ds = foldl (\<lambda>acc c. 10 * acc + digit_val c) 0 ds"

definition scan_d :: "string \<Rightarrow> int option" where
  "scan_d s =
     (case skip_space s of
        None \<Rightarrow> None
      | Some t \<Rightarrow>
          (let neg = (t \<noteq> [] \<and> hd t = CHR ''-'');
               t1 = (if t \<noteq> [] \<and> (hd t = CHR ''+'' \<or> hd t = CHR ''-'') then tl t else t);
               tok = takeWhile is_digit t1
           in if tok = [] then None
              else (let v = (if neg then - decimal_val tok else decimal_val tok)
                    in if - (2 ^ 63) \<le> v \<and> v < 2 ^ 63 then Some v else None)))"

subsection \<open>float64\<close>

text \<open>
  A \<open>float64\<close> is held by its IEEE 754 fields: the sign, the biased exponent
  (\<open>0 .. 2046\<close>) and the fraction (below \<open>2 ^ 52\<close>). The finite value is
  \<open>(2 ^ 52 + fraction) * 2 ^ (exponent - 1075)\<close>, or \<open>fraction * 2 ^ (- 1074)\<close> when the
  exponent field is \<open>0\<close>.
\<close>

datatype float64 = Finite bool int int | Infinity bool | NaN

text \<open>
  The fields read as one sign-magnitude integer order the values as IEEE 754 does; both
  zeros have the key \<open>0\<close>. Every comparison with a NaN is false.
\<close>

fun f64_key :: "float64 \<Rightarrow> int" where
  "f64_key (Finite s e f) = (if s then - (e * 2 ^ 52 + f) else e * 2 ^ 52 + f)"
| "f64_key (Infinity s) = (if s then - (2047 * 2 ^ 52) else 2047 * 2 ^ 52)"
| "f64_key NaN = 0"

definition f64_eq :: "float64 \<Rightarrow> float64 \<Rightarrow> bool" where
  "f64_eq a b = (a \<noteq> NaN \<and> b \<noteq> NaN \<and> f64_key a = f64_key b)"

definition f64_less :: "float64 \<Rightarrow> float64 \<Rightarrow> bool" where
  "f64_less a b = (a \<noteq> NaN \<and> b \<noteq> NaN \<and> f64_key a < f64_key b)"

definition f64_le :: "float64 \<Rightarrow> float64 \<Rightarrow> bool" where
  "f64_le a b = (a \<noteq> NaN \<and> b \<noteq> NaN \<and> f64_key a \<le> f64_key b)"

function bitlen :: "int \<Rightarrow> int" where
  "bitlen n = (if n \<le> 0 then 0 else 1 + bitlen (n div 2))"
  by pat_completeness auto
termination
  by (relation "measure nat") auto

declare bitlen.simps [simp del]

text \<open>
  The conversion \<open>float64(i)\<close> of an integer of at most 64 bits: exact below \<open>2 ^ 53\<close>,
  rounded to the nearest float, ties to the even one, above.
\<close>

definition f64_of_int :: "int \<Rightarrow> float64" where
  "f64_of_int n =
     (if n = 0 then Finite False 0 0
      else (let a = \<bar>n\<bar>; k = bitlen a
            in if k \<le> 53 then Finite (n < 0) (k + 1022) (a * 2 ^ nat (53 - k) - 2 ^ 52)
               else (let sh = nat (k - 53);
                         q = a div 2 ^ sh;
                         r = a mod 2 ^ sh;
                         half = 2 ^ (sh - 1);
                         q' = (if half < r \<or> (r = half \<and> odd q) then q + 1 else q)
                     in if q' = 2 ^ 53 then Finite (n < 0) (k + 1023) 0
                        else Finite (n < 0) (k + 1022) (q' - 2 ^ 52))))"

text \<open>
  The conversion \<open>int64(f)\<close> truncates toward zero. For a value outside the range of
  \<open>int64\<close>, an infinity or a NaN, Go leaves the result to the implementation; the value
  taken here is the one of the amd64 instruction, \<open>- 2 ^ 63\<close>.
\<close>

definition f64_to_int64 :: "float64 \<Rightarrow> 64 word" where
  "f64_to_int64 x =
     (case x of
        Finite s e f \<Rightarrow>
          (let m = (if e = 0 then f else 2 ^ 52 + f);
               ex = (if e = 0 then - 1074 else e - 1075)
           in if m = 0 then 0
              else if 11 \<le> ex then word_of_int (- (2 ^ 63))
              else (let mag = (if 0 \<le> ex then m * 2 ^ nat ex else m div 2 ^ nat (- ex));
                        v = (if s then - mag else mag)
                    in if - (2 ^ 63) \<le> v \<and> v < 2 ^ 63 then word_of_int v
                       else word_of_int (- (2 ^ 63))))
      | _ \<Rightarrow> word_of_int (- (2 ^ 63)))"

text \<open>
  The text of a float (the verbs \<open>%v\<close> and \<open>%f\<close> of package \<open>fmt\<close>, for a
  \<open>float64\<close> and for a \<open>float32\<close>) and the scanning of one (\<open>Sscanf(s, "%f", &f)\<close>) are
  functions of the Go library that the framework only calls; they are parameters of the
  model. So is the source of random identifiers behind \<open>uuid.New()\<close>: \<open>uuid_New L n\<close> is
  the \<open>n\<close>-th identifier drawn in a run.
\<close>

record golib =
  fmt_v64 :: "float64 \<Rightarrow> string"
  fmt_v32 :: "float64 \<Rightarrow> string"
  fmt_f64 :: "float64 \<Rightarrow> string"
  scan_f64 :: "string \<Rightarrow> float64 option"
  uuid_New :: "nat \<Rightarrow> 128 word"

text \<open>
  \<open>UUID.String()\<close>: the 32 hexadecimal digits of the 16 bytes, in the groups
  8-4-4-4-12.
\<close>

definition hex_char :: "int \<Rightarrow> char" where
  "hex_char d = ''0123456789abcdef'' ! nat d"

definition uuid_hex :: "128 word \<Rightarrow> string" where
  "uuid_hex w = map (\<lambda>i. hex_char ((uint w div 16 ^ (31 - i)) mod 16)) [0..<32]"

definition uuid_String :: "128 word \<Rightarrow> string" where
  "uuid_String w =
     (let h = uuid_hex w
      in take 8 h @ ''-'' @ take 4 (drop 8 h) @ ''-'' @ take 4 (drop 12 h) @ ''-''
         @ take 4 (drop 16 h) @ ''-'' @ drop 20 h)"

section \<open>The value model\<close>

text \<open>
  A value of type \<open>any\<close>, as the YAML and JSON decoders produce it and as the type
  switches of \<open>framework.go\<close> distinguish it. A \<open>float32\<close> is held by the \<open>float64\<close> of
  the same value. A \<open>map[string]any\<close> is an association list with distinct keys; a
  \<open>range\<close> over it visits the entries in the order of the list, which stands for the
  order Go happens to choose.
\<close>

datatype val =
    VNil
  | VBool bool
  | VInt64 "64 word"
  | VUInt64 "64 word"
  | VInt "64 word"
  | VInt32 "32 word"
  | VUInt "64 word"
  | VUInt32 "32 word"
  | VFloat64 float64
  | VFloat32 float64
  | VStr string
  | VList "val list"
  | VMap "(string \<times> val) list"

type_synonym gomap = "(string \<times> val) list"

text \<open>The verb \<open>%T\<close>.\<close>

fun typeName :: "val \<Rightarrow> string" where
  "typeName VNil = ''<nil>''"
| "typeName (VBool _) = ''bool''"
| "typeName (VInt64 _) = ''int64''"
| "typeName (VUInt64 _) = ''uint64''"
| "typeName (VInt _) = ''int''"
| "typeName (VInt32 _) = ''int32''"
| "typeName (VUInt _) = ''uint''"
| "typeName (VUInt32 _) = ''uint32''"
| "typeName (VFloat64 _) = ''float64''"
| "typeName (VFloat32 _) = ''float32''"
| "typeName (VStr _) = ''string''"
| "typeName (VList _) = ''[]interface {}''"
| "typeName (VMap _) = ''map[string]interface {}''"

text \<open>
  \<open>fmt.Sprint(v)\<close> of one operand, the verb \<open>%v\<close>: a string is printed as it is, a
  list as \<open>[a b c]\<close>, a map as \<open>map[k:v k:v]\<close> with the keys sorted.
\<close>

fun join_sp :: "string list \<Rightarrow> string" where
  "join_sp [] = []"
| "join_sp [x] = x"
| "join_sp (x # y # ys) = x @ CHR '' '' # join_sp (y # ys)"

fun fmt_Sprint :: "golib \<Rightarrow> val \<Rightarrow> string" where
  "fmt_Sprint L VNil = ''<nil>''"
| "fmt_Sprint L (VBool b) = (if b then ''true'' else ''false'')"
| "fmt_Sprint L (VInt64 w) = fmt_d (sint w)"
| "fmt_Sprint L (VUInt64 w) = fmt_d (uint w)"
| "fmt_Sprint L (VInt w) = fmt_d (sint w)"
| "fmt_Sprint L (VInt32 w) = fmt_d (sint w)"
| "fmt_Sprint L (VUInt w) = fmt_d (uint w)"
| "fmt_Sprint L (VUInt32 w) = fmt_d (uint w)"
| "fmt_Sprint L (VFloat64 x) = fmt_v64 L x"
| "fmt_Sprint L (VFloat32 x) = fmt_v32 L x"
| "fmt_Sprint L (VStr s) = s"
| "fmt_Sprint L (VList xs) = ''['' @ join_sp (map (fmt_Sprint L) xs) @ '']''"
| "fmt_Sprint L (VMap kvs) =
     ''map['' @ join_sp (map (\<lambda>(k, v). k @ '':'' @ fmt_Sprint L v) (sort_key fst kvs)) @ '']''"

section \<open>The template resolver\<close>

subsection \<open>\<open>replaceVariables\<close>\<close>

text \<open>
  The first loop of \<open>replaceVariables\<close>: while the text contains \<open>{{uuid}}\<close>, its first
  occurrence is replaced by a fresh identifier. The counter \<open>n\<close> of identifiers drawn is
  threaded through. The loop ends because an identifier holds no brace.
\<close>

function uuid_loop :: "golib \<Rightarrow> nat \<Rightarrow> string \<Rightarrow> string \<times> nat" where
  "uuid_loop L n result =
     (if strings_Contains result ''{{uuid}}''
      then uuid_loop L (Suc n) (strings_Replace1 result ''{{uuid}}'' (uuid_String (uuid_New L n)))
      else (result, n))"
  by pat_completeness auto
termination
proof (relation "measure (\<lambda>(L, n, result). length (filter (\<lambda>c. c = CHR ''{'') result))")
  show "wf (measure (\<lambda>(L, n, result). length (filter (\<lambda>c. c = CHR ''{'') result)))"
    by simp
next
  fix L :: golib and n :: nat and result :: string
  assume contains: "strings_Contains result ''{{uuid}}''"
  define new where "new = uuid_String (uuid_New L n)"
  have hex: "hex_char d \<in> set ''0123456789abcdef''" if "0 \<le> d" and "d < 16" for d
    unfolding hex_char_def using that by (intro nth_mem) simp
  have "CHR ''{'' \<notin> set (uuid_hex w)" for w
  proof
    assume "CHR ''{'' \<in> set (uuid_hex w)"
    then obtain i where "hex_char ((uint w div 16 ^ (31 - i)) mod 16) = CHR ''{''"
      unfolding uuid_hex_def by auto
    moreover have "0 \<le> (uint w div 16 ^ (31 - i)) mod 16"
      and "(uint w div 16 ^ (31 - i)) mod 16 < 16" by simp_all
    ultimately show False using hex[of "(uint w div 16 ^ (31 - i)) mod 16"] by simp
  qed
  then have "CHR ''{'' \<notin> set new"
    unfolding new_def
    by (auto simp: uuid_String_def Let_def dest!: in_set_takeD in_set_dropD)
  then have new0: "length (filter (\<lambda>c. c = CHR ''{'') new) = 0"
    by (induction new) auto
  have count: "strings_Contains s old \<Longrightarrow> old \<noteq> [] \<Longrightarrow>
      length (filter P (strings_Replace1 s old new)) + length (filter P old)
        = length (filter P s) + length (filter P new)" for s old and P :: "char \<Rightarrow> bool"
  proof (induction s)
    case Nil
    then show ?case by (simp add: strings_Contains_def)
  next
    case (Cons c cs)
    show ?case
    proof (cases "strings_HasPrefix (c # cs) old")
      case True
      then have "c # cs = old @ drop (length old) (c # cs)"
        unfolding strings_HasPrefix_def by (metis append_take_drop_id)
      then have "filter P (c # cs) = filter P old @ filter P (drop (length old) (c # cs))"
        by (metis filter_append)
      with True show ?thesis by simp
    next
      case False
      with Cons.prems have "strings_Contains cs old"
        by (auto simp: strings_Contains_def Let_def split: if_splits)
      with Cons.IH Cons.prems False show ?thesis by simp
    qed
  qed
  from count[OF contains, of "\<lambda>c. c = CHR ''{''"] new0
  have "length (filter (\<lambda>c. c = CHR ''{'') (strings_Replace1 result ''{{uuid}}'' new)) + 2
          = length (filter (\<lambda>c. c = CHR ''{'') result)"
    by simp
  then show "((L, Suc n, strings_Replace1 result ''{{uuid}}'' (uuid_String (uuid_New L n))),
              (L, n, result))
             \<in> measure (\<lambda>(L, n, result). length (filter (\<lambda>c. c = CHR ''{'') result))"
    unfolding new_def by simp
qed

declare uuid_loop.simps [simp del]

text \<open>The \<open>switch\<close> of \<open>replaceVariables\<close> on the type of the variable: its text.\<close>

fun var_text :: "golib \<Rightarrow> val \<Rightarrow> string" where
  "var_text L (VInt64 w) = fmt_d (sint w)"
| "var_text L (VUInt64 w) = fmt_d (uint w)"
| "var_text L (VInt w) = fmt_d (sint w)"
| "var_text L (VInt32 w) = fmt_d (sint w)"
| "var_text L (VUInt w) = fmt_d (uint w)"
| "var_text L (VUInt32 w) = fmt_d (uint w)"
| "var_text L (VFloat64 x) =
     (if f64_eq x (f64_of_int (sint (f64_to_int64 x))) then fmt_d (sint (f64_to_int64 x))
      else fmt_f64 L x)"
| "var_text L v = fmt_Sprint L v"

definition placeholder :: "string \<Rightarrow> string" where
  "placeholder k = ''{{'' @ k @ ''}}''"

text \<open>The second loop: \<open>for k, v := range r.variables\<close>.\<close>

fun subst_vars :: "golib \<Rightarrow> gomap \<Rightarrow> string \<Rightarrow> string" where
  "subst_vars L [] result = result"
| "subst_vars L ((k, v) # kvs) result =
     subst_vars L kvs
       (if strings_Contains result (placeholder k)
        then strings_ReplaceAll result (placeholder k) (var_text L v)
        else result)"

definition replaceVariables :: "golib \<Rightarrow> gomap \<Rightarrow> nat \<Rightarrow> string \<Rightarrow> string \<times> nat" where
  "replaceVariables L vars n s =
     (case uuid_loop L n s of (result, n') \<Rightarrow> (subst_vars L vars result, n'))"

subsection \<open>\<open>extractVarName\<close>, \<open>isNumericString\<close>, \<open>parseNumber\<close>\<close>

text \<open>
  The slice \<open>s[2 : len(s)-2]\<close> is reached only by a string with the prefix \<open>{{\<close> and the
  suffix \<open>}}\<close>, which has four bytes at least, so that it cannot panic.
\<close>

definition extractVarName :: "string \<Rightarrow> string" where
  "extractVarName s =
     (if \<not> strings_HasPrefix s ''{{'' \<or> \<not> strings_HasSuffix s ''}}'' then []
      else (let varName = strings_TrimSpace (take (length s - 4) (drop 2 s))
            in if strings_Contains varName ''{{'' \<or> strings_Contains varName ''}}'' then []
               else varName))"

definition numeric_char :: "char \<Rightarrow> bool" where
  "numeric_char c =
     (\<not> ((c < CHR ''0'' \<or> CHR ''9'' < c) \<and> c \<noteq> CHR ''.'' \<and> c \<noteq> CHR ''e'' \<and> c \<noteq> CHR ''E''
         \<and> c \<noteq> CHR ''+''))"

definition isNumericString :: "string \<Rightarrow> bool" where
  "isNumericString s =
     (case s of
        [] \<Rightarrow> False
      | c # cs \<Rightarrow> (c = CHR ''-'' \<or> numeric_char c) \<and> list_all numeric_char cs)"

definition parseNumber :: "golib \<Rightarrow> string \<Rightarrow> val option" where
  "parseNumber L s =
     (case scan_d s of
        Some i \<Rightarrow> Some (VInt64 (word_of_int i))
      | None \<Rightarrow>
          (case scan_f64 L s of
             Some f \<Rightarrow>
               (if f64_eq f (f64_of_int (sint (f64_to_int64 f)))
                then Some (VInt64 (f64_to_int64 f))
                else Some (VFloat64 f))
           | None \<Rightarrow> None))"

subsection \<open>\<open>replaceMapVariables\<close>\<close>

definition lookup :: "gomap \<Rightarrow> string \<Rightarrow> val option" where
  "lookup m k = map_of m k"

text \<open>The body of the \<open>case string\<close> branch, for the field value \<open>val\<close>.\<close>

definition replace_string_field :: "golib \<Rightarrow> gomap \<Rightarrow> nat \<Rightarrow> string \<Rightarrow> val \<times> nat" where
  "replace_string_field L vars n val =
     (case replaceVariables L vars n val of (replaced, n') \<Rightarrow>
        (if replaced \<noteq> val
         then (let varName = extractVarName val
               in if varName \<noteq> [] \<and> lookup vars varName \<noteq> None
                  then (the (lookup vars varName), n')
                  else if isNumericString replaced \<and> parseNumber L replaced \<noteq> None
                  then (the (parseNumber L replaced), n')
                  else (VStr replaced, n'))
         else (VStr replaced, n')))"

text \<open>The body of the loop over the elements of a list (\<open>case []any\<close>).\<close>

definition replace_item :: "golib \<Rightarrow> gomap \<Rightarrow> nat \<Rightarrow> val \<Rightarrow> val \<times> nat" where
  "replace_item L vars n item =
     (case item of
        VStr itemStr \<Rightarrow>
          (case replaceVariables L vars n itemStr of (replaced, n') \<Rightarrow>
             (if replaced \<noteq> itemStr \<and> isNumericString replaced \<and> parseNumber L replaced \<noteq> None
              then (the (parseNumber L replaced), n')
              else (VStr replaced, n')))
      | _ \<Rightarrow> (item, n))"

fun replace_items :: "golib \<Rightarrow> gomap \<Rightarrow> nat \<Rightarrow> val list \<Rightarrow> val list \<times> nat" where
  "replace_items L vars n [] = ([], n)"
| "replace_items L vars n (item # items) =
     (case replace_item L vars n item of (item', n1) \<Rightarrow>
        (case replace_items L vars n1 items of (items', n2) \<Rightarrow> (item' # items', n2)))"

fun replaceMapVariables :: "golib \<Rightarrow> gomap \<Rightarrow> nat \<Rightarrow> gomap \<Rightarrow> gomap \<times> nat"
  and replace_field :: "golib \<Rightarrow> gomap \<Rightarrow> nat \<Rightarrow> val \<Rightarrow> val \<times> nat" where
  "replaceMapVariables L vars n [] = ([], n)"
| "replaceMapVariables L vars n ((k, v) # m) =
     (case replace_field L vars n v of (v', n1) \<Rightarrow>
        (case replaceMapVariables L vars n1 m of (m', n2) \<Rightarrow> ((k, v') # m', n2)))"
| "replace_field L vars n (VStr val) = replace_string_field L vars n val"
| "replace_field L vars n (VMap val) =
     (case replaceMapVariables L vars n val of (m', n') \<Rightarrow> (VMap m', n'))"
| "replace_field L vars n (VList val) =
     (case replace_items L vars n val of (arr, n') \<Rightarrow> (VList arr, n'))"
| "replace_field L vars n v = (v, n)"

section \<open>The path accessor\<close>

text \<open>A run-time panic of the Go program.\<close>

datatype panic = SliceBoundsOutOfRange | IndexOutOfRange | NilPointerDereference

text \<open>The index expression \<open>m[key]\<close> on a map: \<open>nil\<close> for a missing key.\<close>

definition map_index :: "gomap \<Rightarrow> string \<Rightarrow> val" where
  "map_index m k = (case lookup m k of Some v \<Rightarrow> v | None \<Rightarrow> VNil)"

text \<open>
  One iteration of the loop of \<open>getValueByPath\<close>: it goes on with a new \<open>current\<close>,
  returns from the function, or panics. A failed \<open>Sscanf\<close> leaves \<open>index\<close> at \<open>0\<close>.
\<close>

datatype step = Continue val | Return val | Panicked panic

definition path_step :: "val \<Rightarrow> string \<Rightarrow> step" where
  "path_step current part =
     (if strings_Contains part ''[''
      then (case slice_str part 0 (strings_Index part ''['') of
              None \<Rightarrow> Panicked SliceBoundsOutOfRange
            | Some arrayPart \<Rightarrow>
                (case slice_str part (strings_Index part ''['' + 1) (strings_Index part '']'') of
                   None \<Rightarrow> Panicked SliceBoundsOutOfRange
                 | Some indexPart \<Rightarrow>
                     (let current1 = (case current of VMap m \<Rightarrow> map_index m arrayPart | _ \<Rightarrow> current)
                      in case current1 of
                           VList arr \<Rightarrow>
                             (let index = (case scan_d indexPart of Some i \<Rightarrow> i | None \<Rightarrow> 0)
                              in if index < int (length arr)
                                 then (if index < 0 then Panicked IndexOutOfRange
                                       else Continue (arr ! nat index))
                                 else Return VNil)
                         | _ \<Rightarrow> Continue current1)))
      else (case current of VMap m \<Rightarrow> Continue (map_index m part) | _ \<Rightarrow> Return VNil))"

fun path_loop :: "val \<Rightarrow> string list \<Rightarrow> panic + val" where
  "path_loop current [] = Inr current"
| "path_loop current (part # parts) =
     (case path_step current part of
        Continue c \<Rightarrow> path_loop c parts
      | Return v \<Rightarrow> Inr v
      | Panicked p \<Rightarrow> Inl p)"

definition getValueByPath :: "string \<Rightarrow> gomap \<Rightarrow> panic + val" where
  "getValueByPath path data = path_loop (VMap data) (strings_Split path CHR ''.'')"

section \<open>The assertion evaluator\<close>

subsection \<open>\<open>toInt64\<close>, \<open>toFloat64\<close>, \<open>valuesEqual\<close>\<close>

text \<open>The pair \<open>(x, ok)\<close> of the source is \<open>Some x\<close> when \<open>ok\<close> and \<open>None\<close> otherwise.\<close>

fun toInt64 :: "val \<Rightarrow> 64 word option" where
  "toInt64 (VInt64 w) = Some w"
| "toInt64 (VUInt64 w) = (if uint w \<le> 9223372036854775807 then Some w else None)"
| "toInt64 (VInt w) = Some w"
| "toInt64 (VInt32 w) = Some (scast w)"
| "toInt64 (VUInt w) = Some w"
| "toInt64 (VUInt32 w) = Some (ucast w)"
| "toInt64 (VFloat64 x) =
     (if f64_eq x (f64_of_int (sint (f64_to_int64 x))) then Some (f64_to_int64 x) else None)"
| "toInt64 (VStr s) = (case scan_d s of Some i \<Rightarrow> Some (word_of_int i) | None \<Rightarrow> None)"
| "toInt64 v = None"

fun toFloat64 :: "val \<Rightarrow> float64 option" where
  "toFloat64 (VFloat64 x) = Some x"
| "toFloat64 (VFloat32 x) = Some x"
| "toFloat64 (VInt w) = Some (f64_of_int (sint w))"
| "toFloat64 (VInt64 w) = Some (f64_of_int (sint w))"
| "toFloat64 (VInt32 w) = Some (f64_of_int (sint w))"
| "toFloat64 (VUInt64 w) = Some (f64_of_int (uint w))"
| "toFloat64 (VUInt w) = Some (f64_of_int (uint w))"
| "toFloat64 (VUInt32 w) = Some (f64_of_int (uint w))"
| "toFloat64 v = None"

definition valuesEqual :: "golib \<Rightarrow> val \<Rightarrow> val \<Rightarrow> bool" where
  "valuesEqual L a b =
     (if typeName a = typeName b then fmt_Sprint L a = fmt_Sprint L b
      else (case (toInt64 a, toInt64 b) of
              (Some aInt, Some bInt) \<Rightarrow> aInt = bInt
            | _ \<Rightarrow>
                (case (toFloat64 a, toFloat64 b) of
                   (Some aFloat, Some bFloat) \<Rightarrow> f64_eq aFloat bFloat
                 | _ \<Rightarrow> fmt_Sprint L a = fmt_Sprint L b)))"

subsection \<open>\<open>executeAssertion\<close> and \<open>validateExpectation\<close>\<close>

record Assertion =
  Path :: string
  Operator :: string
  Value :: val

record ExpectConfig =
  StatusCode :: int
  ResponseBody :: gomap
  Assertions :: "Assertion list"

text \<open>
  The error texts of the framework, one constructor for each \<open>fmt.Errorf\<close> and
  \<open>fmt.Sprintf\<close> that builds one, with the values it prints.
\<close>

datatype failure =
    DependencyNotPassed string
  | BuildRequestFailed
  | RequestFailed
  | ReadResponseFailed
  | ParseResponseFailed
  | StatusCodeMismatch int int
  | FieldNotFound string
  | FieldExpectedNull string val
  | FieldMismatch string val val
  | ShouldEqual string val val
  | ShouldNotEqual string val
  | ShouldContain string string string
  | ShouldStartWith string string string
  | ShouldNotBeEmpty string
  | ShouldBeArray string
  | ShouldBeNumber string
  | ExpectedShouldBeNumber
  | ShouldBeGreater string float64 float64
  | ShouldBeGreaterOrEqual string float64 float64
  | ShouldBeLess string float64 float64
  | UnknownOperator string

text \<open>The three ordering operators share their coercion of both operands.\<close>

definition compare_numbers ::
  "string \<Rightarrow> val \<Rightarrow> val \<Rightarrow> (float64 \<Rightarrow> float64 \<Rightarrow> bool) \<Rightarrow>
   (string \<Rightarrow> float64 \<Rightarrow> float64 \<Rightarrow> failure) \<Rightarrow> failure option" where
  "compare_numbers path v expected fails err =
     (case toFloat64 v of
        None \<Rightarrow> Some (ShouldBeNumber path)
      | Some numVal \<Rightarrow>
          (case toFloat64 expected of
             None \<Rightarrow> Some ExpectedShouldBeNumber
           | Some expectedNum \<Rightarrow>
               (if fails numVal expectedNum then Some (err path expectedNum numVal) else None)))"

text \<open>
  \<open>executeAssertion\<close>: \<open>None\<close> is the \<open>nil\<close> error. An expected value that is a string
  goes through \<open>replaceVariables\<close>, which may draw identifiers.
\<close>

definition executeAssertion ::
  "golib \<Rightarrow> gomap \<Rightarrow> nat \<Rightarrow> Assertion \<Rightarrow> gomap \<Rightarrow> panic + (failure option \<times> nat)" where
  "executeAssertion L vars n assertion data =
     (case getValueByPath (Path assertion) data of
        Inl p \<Rightarrow> Inl p
      | Inr v \<Rightarrow>
          (case (case Value assertion of
                   VStr strVal \<Rightarrow>
                     (case replaceVariables L vars n strVal of (s, n') \<Rightarrow> (VStr s, n'))
                 | e \<Rightarrow> (e, n)) of
             (expectedValue, n') \<Rightarrow>
               Inr ((if Operator assertion = ''equals''
                     then (if \<not> valuesEqual L v expectedValue
                           then Some (ShouldEqual (Path assertion) expectedValue v) else None)
                     else if Operator assertion = ''notEquals''
                     then (if valuesEqual L v expectedValue
                           then Some (ShouldNotEqual (Path assertion) expectedValue) else None)
                     else if Operator assertion = ''contains''
                     then (if \<not> strings_Contains (fmt_Sprint L v) (fmt_Sprint L expectedValue)
                           then Some (ShouldContain (Path assertion) (fmt_Sprint L expectedValue)
                                        (fmt_Sprint L v))
                           else None)
                     else if Operator assertion = ''startsWith''
                     then (if \<not> strings_HasPrefix (fmt_Sprint L v) (fmt_Sprint L expectedValue)
                           then Some (ShouldStartWith (Path assertion) (fmt_Sprint L expectedValue)
                                        (fmt_Sprint L v))
                           else None)
                     else if Operator assertion = ''notEmpty''
                     then (if v = VNil \<or> v = VStr []
                           then Some (ShouldNotBeEmpty (Path assertion)) else None)
                     else if Operator assertion = ''isArray''
                     then (case v of VList _ \<Rightarrow> None | _ \<Rightarrow> Some (ShouldBeArray (Path assertion)))
                     else if Operator assertion = ''greaterThan''
                     then compare_numbers (Path assertion) v expectedValue
                            (\<lambda>numVal expectedNum. f64_le numVal expectedNum) ShouldBeGreater
                     else if Operator assertion = ''greaterThanOrEqual''
                     then compare_numbers (Path assertion) v expectedValue
                            (\<lambda>numVal expectedNum. f64_less numVal expectedNum) ShouldBeGreaterOrEqual
                     else if Operator assertion = ''lessThan''
                     then compare_numbers (Path assertion) v expectedValue
                            (\<lambda>numVal expectedNum. f64_le expectedNum numVal) ShouldBeLess
                     else Some (UnknownOperator (Operator assertion))), n')))"

text \<open>The loop over \<open>expect.ResponseBody\<close>; a \<open>nil\<close> map is the empty one.\<close>

fun check_fields :: "golib \<Rightarrow> gomap \<Rightarrow> gomap \<Rightarrow> failure option" where
  "check_fields L [] respData = None"
| "check_fields L ((key, expectedValue) # rest) respData =
     (case lookup respData key of
        None \<Rightarrow> Some (FieldNotFound key)
      | Some actualValue \<Rightarrow>
          (if expectedValue = VNil
           then (if actualValue \<noteq> VNil then Some (FieldExpectedNull key actualValue)
                 else check_fields L rest respData)
           else if fmt_Sprint L actualValue \<noteq> fmt_Sprint L expectedValue
           then Some (FieldMismatch key expectedValue actualValue)
           else check_fields L rest respData))"

text \<open>The loop over \<open>expect.Assertions\<close>.\<close>

fun run_assertions ::
  "golib \<Rightarrow> gomap \<Rightarrow> nat \<Rightarrow> Assertion list \<Rightarrow> gomap \<Rightarrow> panic + (failure option \<times> nat)" where
  "run_assertions L vars n [] respData = Inr (None, n)"
| "run_assertions L vars n (a # as) respData =
     (case executeAssertion L vars n a respData of
        Inl p \<Rightarrow> Inl p
      | Inr (Some err, n') \<Rightarrow> Inr (Some err, n')
      | Inr (None, n') \<Rightarrow> run_assertions L vars n' as respData)"

definition validateExpectation ::
  "golib \<Rightarrow> gomap \<Rightarrow> nat \<Rightarrow> ExpectConfig \<Rightarrow> int \<Rightarrow> gomap \<Rightarrow> panic + (failure option \<times> nat)" where
  "validateExpectation L vars n expect statusCode respData =
     (if StatusCode expect \<noteq> 0 \<and> StatusCode expect \<noteq> statusCode
      then Inr (Some (StatusCodeMismatch (StatusCode expect) statusCode), n)
      else (case check_fields L (ResponseBody expect) respData of
              Some err \<Rightarrow> Inr (Some err, n)
            | None \<Rightarrow> run_assertions L vars n (Assertions expect) respData))"

section \<open>The case scheduler\<close>

subsection \<open>Configuration and results\<close>

record RequestConfig =
  Method :: string
  rc_Path :: string
  Headers :: "(string \<times> string) list"
  Body :: "gomap option"
  Query :: "(string \<times> string) list option"

record RetryConfig =
  Times :: int
  Interval :: int

record TestCase =
  Name :: string
  DependsOn :: string
  Request :: RequestConfig
  Expect :: ExpectConfig
  Save :: "(string \<times> string) list"
  Retry :: "RetryConfig option"

record ResponseData =
  rd_StatusCode :: int
  rd_Body :: gomap
  rd_Headers :: "(string \<times> string list) list"

text \<open>
  A \<open>TestResult\<close>. Its \<open>Error\<close> is \<open>None\<close> for the empty text. The \<open>Duration\<close> is a
  reading of the wall clock and is left out.
\<close>

record TestResult =
  Scenario :: string
  result_Name :: string
  Passed :: bool
  Error :: "failure option"
  Response :: "ResponseData option"

text \<open>The fields of the \<open>TestRunner\<close> that \<open>runTestCase\<close> reads and writes.\<close>

record TestRunner =
  BaseURL :: string
  variables :: gomap
  results :: "TestResult list"

subsection \<open>The collaborators\<close>

text \<open>
  An \<open>http.Request\<close> as \<open>buildRequest\<close> fills it: the method, the address, the encoded
  body, the headers set and the query parameters added (\<open>None\<close> when \<open>cfg.Query\<close> is
  \<open>nil\<close> and the query of the address is left alone).
\<close>

record request =
  req_Method :: string
  req_URL :: string
  req_Body :: "string option"
  req_Header :: "(string \<times> string) list"
  req_Query :: "(string \<times> string) list option"

text \<open>An \<open>http.Response\<close>; reading its body may fail (\<open>None\<close>).\<close>

record response =
  resp_StatusCode :: int
  resp_Header :: "(string \<times> string list) list"
  resp_Body :: "string option"

text \<open>
  What lies outside the framework: the JSON encoder of the request body (\<open>None\<close> is its
  error), the validation of \<open>http.NewRequest\<close>, the transport (\<open>client_Do C k req\<close> is
  the outcome of the call made after \<open>k\<close> earlier ones, \<open>None\<close> a transport error) and the
  decoder of the response (\<open>None\<close> is its error).
\<close>

record collab =
  json_Encode :: "gomap \<Rightarrow> string option"
  http_NewRequest :: "string \<Rightarrow> string \<Rightarrow> bool"
  client_Do :: "nat \<Rightarrow> request \<Rightarrow> response option"
  safejson_Unmarshal :: "string \<Rightarrow> gomap option"

text \<open>
  The state outside the runner: the number of identifiers drawn, the requests handed to
  the transport and the intervals slept (in milliseconds), both in order.
\<close>

record world =
  uuid_count :: nat
  sent :: "request list"
  slept :: "int list"

subsection \<open>\<open>buildRequest\<close>\<close>

text \<open>The loops over the headers and over the query parameters.\<close>

fun replace_pairs ::
  "golib \<Rightarrow> gomap \<Rightarrow> nat \<Rightarrow> (string \<times> string) list \<Rightarrow> (string \<times> string) list \<times> nat" where
  "replace_pairs L vars n [] = ([], n)"
| "replace_pairs L vars n ((k, v) # kvs) =
     (case replaceVariables L vars n v of (v', n1) \<Rightarrow>
        (case replace_pairs L vars n1 kvs of (kvs', n2) \<Rightarrow> ((k, v') # kvs', n2)))"

text \<open>\<open>None\<close> is the \<open>nil\<close> request that comes with an error.\<close>

definition buildRequest ::
  "collab \<Rightarrow> golib \<Rightarrow> TestRunner \<Rightarrow> nat \<Rightarrow> RequestConfig \<Rightarrow> request option \<times> nat" where
  "buildRequest C L r n cfg =
     (case replaceVariables L (variables r) n (rc_Path cfg) of (path, n1) \<Rightarrow>
        (let url = BaseURL r @ path
         in case (case Body cfg of
                    None \<Rightarrow> (Some None, n1)
                  | Some b \<Rightarrow>
                      (case replaceMapVariables L (variables r) n1 b of (bodyData, n2) \<Rightarrow>
                         (case json_Encode C bodyData of
                            None \<Rightarrow> (None, n2)
                          | Some buf \<Rightarrow> (Some (Some buf), n2)))) of
              (None, n2) \<Rightarrow> (None, n2)
            | (Some body, n2) \<Rightarrow>
                (if \<not> http_NewRequest C (Method cfg) url then (None, n2)
                 else (case replace_pairs L (variables r) n2 (Headers cfg) of (hs, n3) \<Rightarrow>
                         (case Query cfg of
                            None \<Rightarrow>
                              (Some \<lparr>req_Method = Method cfg, req_URL = url, req_Body = body,
                                      req_Header = hs, req_Query = None\<rparr>, n3)
                          | Some q \<Rightarrow>
                              (case replace_pairs L (variables r) n3 q of (qs, n4) \<Rightarrow>
                                 (Some \<lparr>req_Method = Method cfg, req_URL = url, req_Body = body,
                                         req_Header = hs, req_Query = Some qs\<rparr>, n4)))))))"

subsection \<open>\<open>saveVariables\<close> and \<open>isDependencyPassed\<close>\<close>

text \<open>The assignment \<open>r.variables[varName] = value\<close>.\<close>

fun store :: "gomap \<Rightarrow> string \<Rightarrow> val \<Rightarrow> gomap" where
  "store [] k v = [(k, v)]"
| "store ((k', v') # m) k v = (if k' = k then (k, v) # m else (k', v') # store m k v)"

fun saveVariables :: "gomap \<Rightarrow> (string \<times> string) list \<Rightarrow> gomap \<Rightarrow> panic + gomap" where
  "saveVariables vars [] respData = Inr vars"
| "saveVariables vars ((varName, path) # rest) respData =
     (case getValueByPath path respData of
        Inl p \<Rightarrow> Inl p
      | Inr v \<Rightarrow> saveVariables (store vars varName v) rest respData)"

fun isDependencyPassed :: "TestResult list \<Rightarrow> string \<Rightarrow> bool" where
  "isDependencyPassed [] name = False"
| "isDependencyPassed (result # rs) name =
     (if result_Name result = name then Passed result else isDependencyPassed rs name)"

subsection \<open>\<open>runTestCase\<close>\<close>

text \<open>
  The attempt loop \<open>for i := 0; i < retryTimes; i++\<close>. Its state is the request (\<open>None\<close>
  after a rebuild that failed, whose error the source drops), and the pair \<open>resp, err\<close>,
  held as \<open>outcome\<close>: \<open>None\<close> while both are \<open>nil\<close>, \<open>Some None\<close> for a transport error,
  \<open>Some (Some resp)\<close> for a response. \<open>client.Do\<close> on a \<open>nil\<close> request panics.
\<close>

function attempt_loop ::
  "collab \<Rightarrow> golib \<Rightarrow> TestRunner \<Rightarrow> RequestConfig \<Rightarrow> int \<Rightarrow> int \<Rightarrow> int \<Rightarrow>
   request option \<Rightarrow> response option option \<Rightarrow> world \<Rightarrow> panic + (response option option \<times> world)" where
  "attempt_loop C L r cfg retryTimes retryInterval i req outcome w =
     (if i < retryTimes
      then (case req of
              None \<Rightarrow> Inl NilPointerDereference
            | Some rq \<Rightarrow>
                (let w1 = w\<lparr>sent := sent w @ [rq]\<rparr>
                 in case client_Do C (length (sent w)) rq of
                      Some resp \<Rightarrow> Inr (Some (Some resp), w1)
                    | None \<Rightarrow>
                        (if i < retryTimes - 1
                         then (let w2 = w1\<lparr>slept := slept w1 @ [retryInterval]\<rparr>
                               in case buildRequest C L r (uuid_count w2) cfg of (req', n') \<Rightarrow>
                                    attempt_loop C L r cfg retryTimes retryInterval (i + 1) req'
                                      (Some None) (w2\<lparr>uuid_count := n'\<rparr>))
                         else attempt_loop C L r cfg retryTimes retryInterval (i + 1) req
                                (Some None) w1)))
      else Inr (outcome, w))"
  by pat_completeness auto
termination
  by (relation "measure (\<lambda>(C, L, r, cfg, retryTimes, retryInterval, i, req, outcome, w).
                    nat (retryTimes - i))") auto

declare attempt_loop.simps [simp del]

definition failed :: "string \<Rightarrow> TestCase \<Rightarrow> failure \<Rightarrow> ResponseData option \<Rightarrow> TestResult" where
  "failed scenario tc err resp =
     \<lparr>Scenario = scenario, result_Name = Name tc, Passed = False, Error = Some err,
      Response = resp\<rparr>"

text \<open>
  The part of \<open>runTestCase\<close> after the attempt loop has left a response: reading and
  decoding the body, validation, capture.
\<close>

definition handle_response ::
  "collab \<Rightarrow> golib \<Rightarrow> TestRunner \<Rightarrow> world \<Rightarrow> string \<Rightarrow> TestCase \<Rightarrow> response \<Rightarrow>
   panic + (TestResult \<times> TestRunner \<times> world)" where
  "handle_response C L r w scenario tc resp =
     (case resp_Body resp of
        None \<Rightarrow> Inr (failed scenario tc ReadResponseFailed None, r, w)
      | Some body \<Rightarrow>
          (case (if body \<noteq> [] then safejson_Unmarshal C body else Some []) of
             None \<Rightarrow> Inr (failed scenario tc ParseResponseFailed None, r, w)
           | Some respData \<Rightarrow>
               (let rd = \<lparr>rd_StatusCode = resp_StatusCode resp, rd_Body = respData,
                         rd_Headers = resp_Header resp\<rparr>
                in case validateExpectation L (variables r) (uuid_count w) (Expect tc)
                          (resp_StatusCode resp) respData of
                     Inl p \<Rightarrow> Inl p
                   | Inr (verdict, n) \<Rightarrow>
                       (case verdict of
                          Some err \<Rightarrow>
                            Inr (failed scenario tc err (Some rd), r, w\<lparr>uuid_count := n\<rparr>)
                        | None \<Rightarrow>
                            (case saveVariables (variables r) (Save tc) respData of
                               Inl p \<Rightarrow> Inl p
                             | Inr vars' \<Rightarrow>
                                 Inr (\<lparr>Scenario = scenario, result_Name = Name tc, Passed = True,
                                       Error = None, Response = Some rd\<rparr>,
                                      r\<lparr>variables := vars'\<rparr>, w\<lparr>uuid_count := n\<rparr>))))))"

text \<open>
  \<open>runTestCase\<close> returns the result, the runner (whose variables a capture may have
  grown) and the world, or panics. After the loop, \<open>err != nil\<close> is tested first; then
  \<open>defer resp.Body.Close()\<close> dereferences \<open>resp\<close>.
\<close>

definition runTestCase ::
  "collab \<Rightarrow> golib \<Rightarrow> TestRunner \<Rightarrow> world \<Rightarrow> string \<Rightarrow> TestCase \<Rightarrow>
   panic + (TestResult \<times> TestRunner \<times> world)" where
  "runTestCase C L r w scenario tc =
     (if DependsOn tc \<noteq> [] \<and> \<not> isDependencyPassed (results r) (DependsOn tc)
      then Inr (failed scenario tc (DependencyNotPassed (DependsOn tc)) None, r, w)
      else (case buildRequest C L r (uuid_count w) (Request tc) of
              (None, n) \<Rightarrow> Inr (failed scenario tc BuildRequestFailed None, r, w\<lparr>uuid_count := n\<rparr>)
            | (Some req, n) \<Rightarrow>
                (let retryTimes = (case Retry tc of None \<Rightarrow> 1 | Some rt \<Rightarrow> Times rt);
                     retryInterval = (case Retry tc of None \<Rightarrow> 0 | Some rt \<Rightarrow> Interval rt)
                 in case attempt_loop C L r (Request tc) retryTimes retryInterval 0 (Some req) None
                           (w\<lparr>uuid_count := n\<rparr>) of
                      Inl p \<Rightarrow> Inl p
                    | Inr (outcome, w1) \<Rightarrow>
                        (case outcome of
                           Some None \<Rightarrow> Inr (failed scenario tc RequestFailed None, r, w1)
                         | None \<Rightarrow> Inl NilPointerDereference
                         | Some (Some resp) \<Rightarrow> handle_response C L r w1 scenario tc resp))))"

section \<open>Names and a library for the closed examples\<close>

text \<open>
  The specification writes a placeholder as \<open>{{identifier}}\<close>. An identifier is taken
  to be a non-empty word of letters, digits and underscores.
\<close>

definition ident_char :: "char \<Rightarrow> bool" where
  "ident_char c = (is_digit c \<or> c = CHR ''_'' \<or> (CHR ''a'' \<le> c \<and> c \<le> CHR ''z'')
      \<or> (CHR ''A'' \<le> c \<and> c \<le> CHR ''Z''))"

definition is_identifier :: "string \<Rightarrow> bool" where
  "is_identifier name = (name \<noteq> [] \<and> list_all ident_char name)"

text \<open>
  The library at which the closed examples below are stated. None of them formats or
  scans a float, so that each of them holds for every choice of the four float functions;
  the \<open>n\<close>-th identifier drawn is the number \<open>n\<close>.
\<close>

definition lib0 :: golib where
  "lib0 = \<lparr>fmt_v64 = (\<lambda>x. []), fmt_v32 = (\<lambda>x. []), fmt_f64 = (\<lambda>x. []),
            scan_f64 = (\<lambda>s. None), uuid_New = of_nat\<rparr>"

text \<open>
  The kinds whose values of one kind \<open>valuesEqual\<close> compares exactly: null, booleans,
  the integer subtypes and strings (not the floats, lists or maps).
\<close>

definition exact_kind :: "val \<Rightarrow> bool" where
  "exact_kind v =
     (case v of
        VFloat64 _ \<Rightarrow> False
      | VFloat32 _ \<Rightarrow> False
      | VList _ \<Rightarrow> False
      | VMap _ \<Rightarrow> False
      | _ \<Rightarrow> True)"

text \<open>
  The surroundings of the closed examples of \<open>runTestCase\<close>: a transport whose first two
  calls meet a transport error and whose later calls answer \<open>200\<close> with the body
  \<open>{"id":7}\<close> (the decoder is fixed on that body), a runner without variables or
  results, an untouched world, and a case that asks for \<open>/users/1\<close> and expects \<open>200\<close>.
\<close>

definition flaky_collab :: collab where
  "flaky_collab =
     \<lparr>json_Encode = (\<lambda>m. Some []),
      http_NewRequest = (\<lambda>method url. True),
      client_Do = (\<lambda>k req. if k < 2 then None
                            else Some \<lparr>resp_StatusCode = 200, resp_Header = [],
                                       resp_Body = Some ''{\"id\":7}''\<rparr>),
      safejson_Unmarshal = (\<lambda>body. Some [(''id'', VInt64 7)])\<rparr>"

definition runner0 :: TestRunner where
  "runner0 = \<lparr>BaseURL = ''http://api'', variables = [], results = []\<rparr>"

definition world0 :: world where
  "world0 = \<lparr>uuid_count = 0, sent = [], slept = []\<rparr>"

definition get_user :: TestCase where
  "get_user =
     \<lparr>Name = ''get user'', DependsOn = [],
      Request = \<lparr>Method = ''GET'', rc_Path = ''/users/1'', Headers = [], Body = None,
                  Query = None\<rparr>,
      Expect = \<lparr>StatusCode = 200, ResponseBody = [], Assertions = []\<rparr>,
      Save = [], Retry = None\<rparr>"



definition get_user_request :: request where
  "get_user_request =
     \<lparr>req_Method = ''GET'', req_URL = ''http://api/users/1'', req_Body = None,
      req_Header = [], req_Query = None\<rparr>"

text \<open>
  The case \<open>get_user\<close> with three attempts and the capture of the path \<open>id[0]\<close> into the
  variable \<open>v\<close>.
\<close>

definition capture_case :: TestCase where
  "capture_case =
     get_user\<lparr>Save := [(''v'', ''id[0]'')], Retry := Some \<lparr>Times = 3, Interval = 0\<rparr>\<rparr>"

section \<open>Properties of the template resolver\<close>

subsection \<open>The string primitives\<close>

lemma Index_no_first:
  "sub \<noteq> [] \<Longrightarrow> hd sub \<notin> set t \<Longrightarrow> strings_Index t sub = -1"
  by (induction t) (auto simp: strings_HasPrefix_def Let_def take_Cons' neq_Nil_conv split: if_splits)

lemma not_Contains_no_first:
  "sub \<noteq> [] \<Longrightarrow> hd sub \<notin> set t \<Longrightarrow> \<not> strings_Contains t sub"
  by (simp add: strings_Contains_def Index_no_first)

lemma leading_rune_None:
  assumes "s \<noteq> []" and "hd s \<notin> hd ` set runes"
  shows "leading_rune runes s = None"
proof -
  have "\<not> (u \<noteq> [] \<and> strings_HasPrefix s u)" if "u \<in> set runes" for u
  proof
    assume "u \<noteq> [] \<and> strings_HasPrefix s u"
    then have "u \<noteq> []" and "take (length u) s = u"
      by (simp_all add: strings_HasPrefix_def)
    then have "hd u = hd s"
      using assms(1) by (metis hd_take length_greater_0_conv)
    with that have "hd s \<in> hd ` set runes"
      by (metis imageI)
    with assms(2) show False by simp
  qed
  then show ?thesis
    unfolding leading_rune_def by (simp add: find_None_iff)
qed

lemma strip_leading_id: "leading_rune runes s = None \<Longrightarrow> strip_leading runes s = s"
  by (simp add: strip_leading.simps)

lemma TrimSpace_id:
  assumes "s \<noteq> []" and "hd s \<notin> hd ` set white_space"
    and "last s \<notin> hd ` set (map rev white_space)"
  shows "strings_TrimSpace s = s"
proof -
  have 1: "strip_leading white_space s = s"
    using assms(1,2) by (intro strip_leading_id leading_rune_None)
  have "rev s \<noteq> []" and "hd (rev s) = last s"
    using assms(1) by (simp_all add: hd_rev)
  then have 2: "strip_leading (map rev white_space) (rev s) = rev s"
    using assms(3) by (intro strip_leading_id leading_rune_None) simp_all
  show ?thesis
    unfolding strings_TrimSpace_def by (simp add: 1 2)
qed

lemma take_delim_eq:
  "c \<notin> set name \<Longrightarrow> c \<notin> set u \<Longrightarrow>
   take (Suc (Suc (length u))) (name @ [c, c]) = u @ [c, c] \<Longrightarrow> name = u"
proof (induction name arbitrary: u)
  case Nil
  have "length (take (Suc (Suc (length u))) ([] @ [c, c])) \<le> 2" by simp
  with Nil.prems(3) have "length (u @ [c, c]) \<le> 2" by metis
  then show ?case by simp
next
  case (Cons a name)
  show ?case
  proof (cases u)
    case Nil
    with Cons.prems show ?thesis by simp
  next
    case (Cons b u')
    with Cons.prems have "a = b" "take (Suc (Suc (length u'))) (name @ [c, c]) = u' @ [c, c]"
      "c \<notin> set name" "c \<notin> set u'"
      by simp_all
    with Cons.IH[of u'] Cons show ?thesis by simp
  qed
qed

lemma uuid_String_no_brace: "CHR ''{'' \<notin> set (uuid_String w)"
proof -
  have hex: "hex_char d \<in> set ''0123456789abcdef''" if "0 \<le> d" and "d < 16" for d
    unfolding hex_char_def using that by (intro nth_mem) simp
  have "CHR ''{'' \<notin> set (uuid_hex w)"
  proof
    assume "CHR ''{'' \<in> set (uuid_hex w)"
    then obtain i where "hex_char ((uint w div 16 ^ (31 - i)) mod 16) = CHR ''{''"
      unfolding uuid_hex_def by auto
    moreover have "0 \<le> (uint w div 16 ^ (31 - i)) mod 16"
      and "(uint w div 16 ^ (31 - i)) mod 16 < 16" by simp_all
    ultimately show False using hex[of "(uint w div 16 ^ (31 - i)) mod 16"] by simp
  qed
  then show ?thesis
    by (auto simp: uuid_String_def Let_def dest!: in_set_takeD in_set_dropD)
qed

subsection \<open>Placeholders of identifiers\<close>

lemma ident_no_brace: "is_identifier name \<Longrightarrow> CHR ''{'' \<notin> set name \<and> CHR ''}'' \<notin> set name"
  by (auto simp: is_identifier_def list_all_iff ident_char_def is_digit_def)

lemma ident_char_no_space:
  assumes "ident_char c"
  shows "c \<notin> hd ` set white_space" and "c \<notin> hd ` set (map rev white_space)"
  using assms
  by (auto simp: white_space_def ident_char_def is_digit_def less_eq_char_def)

lemma ident_trim: "is_identifier name \<Longrightarrow> strings_TrimSpace name = name"
proof (rule TrimSpace_id)
  assume a: "is_identifier name"
  then show ne: "name \<noteq> []"
    by (simp add: is_identifier_def)
  then have "hd name \<in> set name" "last name \<in> set name"
    by simp_all
  with a have h: "ident_char (hd name)" and l: "ident_char (last name)"
    by (simp_all add: is_identifier_def list_all_iff)
  show "hd name \<notin> hd ` set white_space"
    by (rule ident_char_no_space(1)[OF h])
  show "last name \<notin> hd ` set (map rev white_space)"
    by (rule ident_char_no_space(2)[OF l])
qed

lemma extractVarName_placeholder:
  assumes "is_identifier name"
  shows "extractVarName (placeholder name) = name"
proof -
  have nb: "CHR ''{'' \<notin> set name" "CHR ''}'' \<notin> set name"
    using ident_no_brace[OF assms] by auto
  have p: "strings_HasPrefix (placeholder name) ''{{''"
    by (simp add: strings_HasPrefix_def placeholder_def)
  have s: "strings_HasSuffix (placeholder name) ''}}''"
    by (simp add: strings_HasSuffix_def placeholder_def)
  have mid: "take (length (placeholder name) - 4) (drop 2 (placeholder name)) = name"
    by (simp add: placeholder_def)
  have c1: "\<not> strings_Contains name ''{{''"
    using nb by (intro not_Contains_no_first) auto
  have c2: "\<not> strings_Contains name ''}}''"
    using nb by (intro not_Contains_no_first) auto
  show ?thesis
    unfolding extractVarName_def using p s c1 c2
    by (simp add: mid ident_trim[OF assms] Let_def)
qed

lemma placeholder_no_uuid:
  assumes "is_identifier name" "name \<noteq> ''uuid''"
  shows "\<not> strings_Contains (placeholder name) ''{{uuid}}''"
proof -
  have nb: "CHR ''{'' \<notin> set name" "CHR ''}'' \<notin> set name"
    using ident_no_brace[OF assms(1)] by auto
  define rest where "rest = name @ ''}}''"
  have rest: "CHR ''{'' \<notin> set rest" "rest \<noteq> []"
    using nb by (simp_all add: rest_def)
  have i0: "strings_Index rest ''{{uuid}}'' = -1"
    using rest by (intro Index_no_first) simp_all
  have h1: "\<not> strings_HasPrefix (CHR ''{'' # rest) ''{{uuid}}''"
    using rest by (cases rest) (auto simp: strings_HasPrefix_def)
  have h0: "\<not> strings_HasPrefix (CHR ''{'' # CHR ''{'' # rest) ''{{uuid}}''"
  proof
    assume "strings_HasPrefix (CHR ''{'' # CHR ''{'' # rest) ''{{uuid}}''"
    then have "take (Suc (Suc (length ''uuid''))) (name @ [CHR ''}'', CHR ''}''])
        = ''uuid'' @ [CHR ''}'', CHR ''}'']"
      by (simp add: strings_HasPrefix_def rest_def)
    from take_delim_eq[OF nb(2) _ this] assms(2) show False by simp
  qed
  have "placeholder name = CHR ''{'' # CHR ''{'' # rest"
    by (simp add: placeholder_def rest_def)
  then show ?thesis
    using h0 h1 i0 by (simp add: strings_Contains_def Let_def)
qed

lemma subst_vars_no_brace: "CHR ''{'' \<notin> set t \<Longrightarrow> subst_vars L vars t = t"
proof (induction vars)
  case Nil
  then show ?case by simp
next
  case (Cons kv vars)
  obtain k v where kv: "kv = (k, v)" by (cases kv)
  have "\<not> strings_Contains t (placeholder k)"
    using Cons.prems by (intro not_Contains_no_first) (simp_all add: placeholder_def)
  with Cons kv show ?case by simp
qed

lemma replaceVariables_uuid:
  "fst (replaceVariables L vars n ''{{uuid}}'') = uuid_String (uuid_New L n)"
proof -
  have c: "strings_Contains ''{{uuid}}'' ''{{uuid}}''"
    by (simp add: strings_Contains_def strings_HasPrefix_def)
  have nc: "\<not> strings_Contains (uuid_String (uuid_New L n)) ''{{uuid}}''"
    using uuid_String_no_brace by (intro not_Contains_no_first) simp_all
  have "uuid_loop L (Suc n) (uuid_String (uuid_New L n)) = (uuid_String (uuid_New L n), Suc n)"
    using nc by (subst uuid_loop.simps) simp
  then have "uuid_loop L n ''{{uuid}}'' = (uuid_String (uuid_New L n), Suc n)"
    using c by (subst uuid_loop.simps) (simp add: strings_HasPrefix_def)
  then show ?thesis
    by (simp add: replaceVariables_def subst_vars_no_brace[OF uuid_String_no_brace])
qed

lemma replaceVariables_placeholder:
  assumes "is_identifier name" "name \<noteq> ''uuid''"
  shows "replaceVariables L vars n (placeholder name) = (subst_vars L vars (placeholder name), n)"
  using placeholder_no_uuid[OF assms]
  by (simp add: replaceVariables_def uuid_loop.simps)

text \<open>
  Whether the text of a whole placeholder resolves to itself does not depend on the
  number of identifiers drawn before.
\<close>

lemma placeholder_fixed_indep:
  assumes "is_identifier name"
  shows "(fst (replaceVariables L vars m (placeholder name)) = placeholder name)
       = (fst (replaceVariables L vars m' (placeholder name)) = placeholder name)"
proof (cases "name = ''uuid''")
  case True
  have "uuid_String w \<noteq> ''{{uuid}}''" for w
    using uuid_String_no_brace[of w] by auto
  with True show ?thesis
    by (simp add: placeholder_def replaceVariables_uuid)
next
  case False
  then show ?thesis by (simp add: replaceVariables_placeholder[OF assms])
qed

subsection \<open>The fields of a resolved body\<close>

text \<open>
  A field of the resolved body is the resolution of the same field of the template, at
  the count of identifiers reached there.
\<close>

lemma rmv_lookup:
  "lookup body k = Some v0 \<Longrightarrow>
   \<exists>m. lookup (fst (replaceMapVariables L vars n body)) k = Some (fst (replace_field L vars m v0))"
proof (induction body arbitrary: n)
  case Nil
  then show ?case by (simp add: lookup_def)
next
  case (Cons kv body)
  obtain k' v' where kv: "kv = (k', v')" by (cases kv)
  obtain w n1 where f: "replace_field L vars n v' = (w, n1)" by (cases "replace_field L vars n v'")
  obtain m' n2 where r: "replaceMapVariables L vars n1 body = (m', n2)"
    by (cases "replaceMapVariables L vars n1 body")
  show ?case
  proof (cases "k' = k")
    case True
    with Cons.prems kv have "v0 = v'" by (simp add: lookup_def)
    with True kv f r show ?thesis by (auto simp: lookup_def intro: exI[of _ n])
  next
    case False
    with Cons.prems kv have "lookup body k = Some v0" by (simp add: lookup_def)
    from Cons.IH[OF this, of n1] obtain m where
      "lookup (fst (replaceMapVariables L vars n1 body)) k = Some (fst (replace_field L vars m v0))"
      by blast
    with False kv f r show ?thesis by (auto simp: lookup_def)
  qed
qed

subsection \<open>Whole-field placeholders (C1)\<close>

text \<open>
  C1 (as amended). A field of a structured request body whose string value is exactly one
  placeholder \<open>{{name}}\<close>, for an identifier \<open>name\<close> bound in the Variable Store, resolves
  under \<open>replaceMapVariables\<close> to the variable's stored value itself (an int64 stays that
  int64), provided the textual resolution of the placeholder differs from the placeholder,
  which is the guard \<open>replaced != val\<close> of the code. When the text resolves to itself, as
  with string variables that refer to each other, the field stays the placeholder text.
\<close>

theorem whole_field_placeholder_keeps_stored_value:
  assumes "lookup body k = Some (VStr (placeholder name))"
    and "is_identifier name"
    and "lookup vars name = Some v"
  shows "lookup (fst (replaceMapVariables L vars n body)) k
       = Some (if fst (replaceVariables L vars m (placeholder name)) = placeholder name
               then VStr (placeholder name) else v)"
proof -
  from rmv_lookup[OF assms(1)] obtain m' where
    1: "lookup (fst (replaceMapVariables L vars n body)) k
          = Some (fst (replace_field L vars m' (VStr (placeholder name))))"
    by blast
  obtain replaced n' where
    2: "replaceVariables L vars m' (placeholder name) = (replaced, n')"
    by (cases "replaceVariables L vars m' (placeholder name)")
  have 3: "(replaced = placeholder name)
         = (fst (replaceVariables L vars m (placeholder name)) = placeholder name)"
    using placeholder_fixed_indep[OF assms(2), of L vars m' m] 2 by simp
  have "name \<noteq> []" using assms(2) by (simp add: is_identifier_def)
  then have "fst (replace_field L vars m' (VStr (placeholder name)))
           = (if replaced = placeholder name then VStr (placeholder name) else v)"
    using 2 assms(3)
    by (simp add: replace_string_field_def extractVarName_placeholder[OF assms(2)])
  with 1 3 show ?thesis by simp
qed

theorem whole_field_placeholder_keeps_stored_value_witness:
  "lookup [(''id'', VStr ''{{order_id}}'')] ''id'' = Some (VStr (placeholder ''order_id''))
   \<and> is_identifier ''order_id''
   \<and> lookup [(''order_id'', VInt64 123456789012345)] ''order_id'' = Some (VInt64 123456789012345)
   \<and> lookup (fst (replaceMapVariables lib0 [(''order_id'', VInt64 123456789012345)] 0
               [(''id'', VStr ''{{order_id}}'')])) ''id''
     = Some (VInt64 123456789012345)"
proof -
  have h1: "lookup [(''id'', VStr ''{{order_id}}'')] ''id'' = Some (VStr (placeholder ''order_id''))"
    by code_simp
  have h2: "is_identifier ''order_id''"
    by code_simp
  have h3: "lookup [(''order_id'', VInt64 123456789012345)] ''order_id''
              = Some (VInt64 123456789012345)"
    by code_simp
  have h4: "fst (replaceVariables lib0 [(''order_id'', VInt64 123456789012345)] 0
                   (placeholder ''order_id'')) \<noteq> placeholder ''order_id''"
    by code_simp
  from whole_field_placeholder_keeps_stored_value[OF h1 h2 h3, of lib0 0 0] h4
  have "lookup (fst (replaceMapVariables lib0 [(''order_id'', VInt64 123456789012345)] 0
               [(''id'', VStr ''{{order_id}}'')])) ''id''
     = Some (VInt64 123456789012345)"
    by simp
  with h1 h2 h3 show ?thesis by blast
qed

text \<open>
  The claim as it was stated fails for two string variables that name each other, visited
  in the order \<open>a\<close>, \<open>b\<close>: the text \<open>{{a}}\<close> resolves to \<open>{{b}}\<close> and back to \<open>{{a}}\<close>, the
  guard sees no replacement, and the field is not the stored value \<open>{{b}}\<close> of \<open>a\<close>.
\<close>

theorem whole_field_placeholder_counterexample:
  "is_identifier ''a''
   \<and> lookup [(''a'', VStr ''{{b}}''), (''b'', VStr ''{{a}}'')] ''a'' = Some (VStr ''{{b}}'')
   \<and> lookup [(''k'', VStr ''{{a}}'')] ''k'' = Some (VStr (placeholder ''a''))
   \<and> lookup (fst (replaceMapVariables lib0 [(''a'', VStr ''{{b}}''), (''b'', VStr ''{{a}}'')] 0
               [(''k'', VStr ''{{a}}'')])) ''k''
     = Some (VStr ''{{a}}'')
   \<and> VStr ''{{a}}'' \<noteq> VStr ''{{b}}''"
  by code_simp

subsection \<open>Elements of lists (C4)\<close>

text \<open>
  C4. The claim holds for the fields of the body but not for the elements of a list: the
  loop over a list has the numeric reparse only and never looks the variable up. A list
  element \<open>{{flag}}\<close> for the variable \<open>flag = true\<close> becomes the string \<open>true\<close>, while the
  same placeholder as a field of the same body becomes the stored boolean.
\<close>

theorem list_element_loses_stored_kind:
  "fst (replaceMapVariables lib0 [(''flag'', VBool True)] 0
          [(''tags'', VList [VStr ''{{flag}}'']), (''field'', VStr ''{{flag}}'')])
   = [(''tags'', VList [VStr ''true'']), (''field'', VBool True)]"
  by code_simp

subsection \<open>Mixed fields (C5)\<close>

text \<open>
  C5 (as amended). A string field of a request body that is not one whole placeholder
  (\<open>extractVarName\<close> finds no name in it, as for \<open>id-{{user_id}}\<close>) resolves to a string,
  the textual substitution, whenever that text is not numeric in the sense of
  \<open>isNumericString\<close>, whatever the kinds of the variables.
\<close>

theorem mixed_field_stays_string:
  assumes "lookup body k = Some (VStr s)"
    and "extractVarName s = []"
    and "\<And>m. \<not> isNumericString (fst (replaceVariables L vars m s))"
  shows "\<exists>m. lookup (fst (replaceMapVariables L vars n body)) k
             = Some (VStr (fst (replaceVariables L vars m s)))"
proof -
  from rmv_lookup[OF assms(1)] obtain m where
    1: "lookup (fst (replaceMapVariables L vars n body)) k
          = Some (fst (replace_field L vars m (VStr s)))"
    by blast
  obtain replaced n' where 2: "replaceVariables L vars m s = (replaced, n')"
    by (cases "replaceVariables L vars m s")
  have "\<not> isNumericString replaced"
    using assms(3)[of m] 2 by simp
  then have "fst (replace_field L vars m (VStr s)) = VStr replaced"
    using 2 assms(2) by (simp add: replace_string_field_def)
  with 1 2 show ?thesis by (intro exI[of _ m]) simp
qed

theorem mixed_field_stays_string_witness:
  "lookup [(''ref'', VStr ''id-{{user_id}}'')] ''ref'' = Some (VStr ''id-{{user_id}}'')
   \<and> extractVarName ''id-{{user_id}}'' = []
   \<and> (\<exists>m. lookup (fst (replaceMapVariables lib0 [(''user_id'', VInt64 42)] 0
                  [(''ref'', VStr ''id-{{user_id}}'')])) ''ref''
            = Some (VStr (fst (replaceVariables lib0 [(''user_id'', VInt64 42)] m
                               ''id-{{user_id}}''))))
   \<and> fst (replaceVariables lib0 [(''user_id'', VInt64 42)] 0 ''id-{{user_id}}'') = ''id-42''"
proof -
  have h1: "lookup [(''ref'', VStr ''id-{{user_id}}'')] ''ref'' = Some (VStr ''id-{{user_id}}'')"
    by code_simp
  have h2: "extractVarName ''id-{{user_id}}'' = []"
    by code_simp
  have nu: "\<not> strings_Contains ''id-{{user_id}}'' ''{{uuid}}''"
    by code_simp
  have r: "fst (replaceVariables lib0 [(''user_id'', VInt64 42)] m ''id-{{user_id}}'')
             = fst (replaceVariables lib0 [(''user_id'', VInt64 42)] 0 ''id-{{user_id}}'')" for m
    using nu by (simp add: replaceVariables_def uuid_loop.simps)
  have v: "fst (replaceVariables lib0 [(''user_id'', VInt64 42)] 0 ''id-{{user_id}}'') = ''id-42''"
    by code_simp
  have nn: "\<not> isNumericString ''id-42''"
    by code_simp
  have h3: "\<not> isNumericString (fst (replaceVariables lib0 [(''user_id'', VInt64 42)] m
                                    ''id-{{user_id}}''))" for m
    using r[of m] v nn by simp
  have e: "\<exists>m. lookup (fst (replaceMapVariables lib0 [(''user_id'', VInt64 42)] 0
                  [(''ref'', VStr ''id-{{user_id}}'')])) ''ref''
            = Some (VStr (fst (replaceVariables lib0 [(''user_id'', VInt64 42)] m
                               ''id-{{user_id}}'')))"
    by (rule mixed_field_stays_string[OF h1 h2 h3])
  show ?thesis
    by (intro conjI) (rule h1, rule h2, rule e, rule v)
qed

text \<open>
  The claim as it was stated fails when literal digits surround the placeholder: the text
  \<open>1{{x}}\<close> with \<open>x = 5\<close> is substituted to \<open>15\<close>, which is numeric, and the field
  becomes the integer \<open>15\<close>.
\<close>

theorem mixed_field_counterexample:
  "extractVarName ''1{{x}}'' = []
   \<and> lookup (fst (replaceMapVariables lib0 [(''x'', VInt64 5)] 0 [(''n'', VStr ''1{{x}}'')])) ''n''
     = Some (VInt64 15)"
  by code_simp

section \<open>Properties of the path accessor and of capture\<close>

subsection \<open>Resolution of paths (C3)\<close>

text \<open>
  C3. On \<open>{"a":{"b":[1,2,3]}}\<close> the paths of the specification resolve as it says:
  \<open>a.b[1]\<close> is \<open>2\<close>, \<open>a.b[5]\<close> and \<open>a.c\<close> are absent. But a segment with an index whose
  key does not name a list does not end the resolution: \<open>a[0]\<close> yields the mapping under
  \<open>a\<close>, and \<open>a.b[1].c[0]\<close> yields \<open>2\<close>. A negative index and a segment without its
  closing bracket make the function panic.
\<close>

theorem getValueByPath_indexed_segment_cases:
  "getValueByPath ''a.b[1]'' [(''a'', VMap [(''b'', VList [VInt64 1, VInt64 2, VInt64 3])])]
     = Inr (VInt64 2)
   \<and> getValueByPath ''a.b[5]'' [(''a'', VMap [(''b'', VList [VInt64 1, VInt64 2, VInt64 3])])]
     = Inr VNil
   \<and> getValueByPath ''a.c'' [(''a'', VMap [(''b'', VList [VInt64 1, VInt64 2, VInt64 3])])]
     = Inr VNil
   \<and> getValueByPath ''a[0]'' [(''a'', VMap [(''b'', VList [VInt64 1, VInt64 2, VInt64 3])])]
     = Inr (VMap [(''b'', VList [VInt64 1, VInt64 2, VInt64 3])])
   \<and> getValueByPath ''a.b[1].c[0]'' [(''a'', VMap [(''b'', VList [VInt64 1, VInt64 2, VInt64 3])])]
     = Inr (VInt64 2)
   \<and> getValueByPath ''a.b[-1]'' [(''a'', VMap [(''b'', VList [VInt64 1, VInt64 2, VInt64 3])])]
     = Inl IndexOutOfRange
   \<and> getValueByPath ''a.b[1'' [(''a'', VMap [(''b'', VList [VInt64 1, VInt64 2, VInt64 3])])]
     = Inl SliceBoundsOutOfRange"
  by code_simp

subsection \<open>Capture of absent paths (C10)\<close>

lemma lookup_store: "lookup (store m k v) k' = (if k' = k then Some v else lookup m k')"
  by (induction m) (auto simp: lookup_def)

text \<open>
  When no path of the capture map panics, \<open>saveVariables\<close> returns, every captured name
  is bound to what its path resolves to, and the other variables are untouched.
\<close>

lemma saveVariables_binds:
  assumes "distinct (map fst save)"
    and "\<forall>(name, path) \<in> set save. \<exists>v. getValueByPath path respData = Inr v"
  shows "\<exists>vars'. saveVariables vars save respData = Inr vars'
           \<and> (\<forall>k. k \<notin> fst ` set save \<longrightarrow> lookup vars' k = lookup vars k)
           \<and> (\<forall>(name, path) \<in> set save. \<forall>v. getValueByPath path respData = Inr v
                 \<longrightarrow> lookup vars' name = Some v)"
  using assms
proof (induction save arbitrary: vars)
  case Nil
  then show ?case by simp
next
  case (Cons np save)
  obtain name0 path0 where np: "np = (name0, path0)" by (cases np)
  from Cons.prems(2) np obtain v0 where v0: "getValueByPath path0 respData = Inr v0"
    by auto
  from Cons.prems np have d: "distinct (map fst save)" and fresh: "name0 \<notin> fst ` set save"
    and rest: "\<forall>(name, path) \<in> set save. \<exists>v. getValueByPath path respData = Inr v"
    by auto
  from Cons.IH[OF d rest, of "store vars name0 v0"] obtain vars' where
    r: "saveVariables (store vars name0 v0) save respData = Inr vars'"
    and keep: "\<forall>k. k \<notin> fst ` set save \<longrightarrow> lookup vars' k = lookup (store vars name0 v0) k"
    and bound: "\<forall>(name, path) \<in> set save. \<forall>v. getValueByPath path respData = Inr v
                 \<longrightarrow> lookup vars' name = Some v"
    by blast
  have 1: "saveVariables vars (np # save) respData = Inr vars'"
    using np v0 r by simp
  have 2: "\<forall>k. k \<notin> fst ` set (np # save) \<longrightarrow> lookup vars' k = lookup vars k"
    using keep np by (auto simp: lookup_store)
  have "lookup vars' name0 = Some v0"
    using keep fresh by (simp add: lookup_store)
  then have 3: "\<forall>(name, path) \<in> set (np # save). \<forall>v. getValueByPath path respData = Inr v
                 \<longrightarrow> lookup vars' name = Some v"
    using bound np v0 by auto
  from 1 2 3 show ?case by blast
qed

text \<open>
  C10. A capture entry whose key is missing from the response, or present with the value
  null, binds its variable to \<open>nil\<close>. But an absent path is not always bound to \<open>nil\<close>: on
  the response \<open>{"id":7}\<close>, where \<open>id\<close> is a number and not a list, the path \<open>id[0]\<close> names
  nothing, and the indexed branch of \<open>getValueByPath\<close> (the one of C3) yields \<open>7\<close>, which
  capture binds; on \<open>{"data":{"id":7}}\<close> the path \<open>data[3]\<close> binds the mapping under \<open>data\<close>.
  So the passing case \<open>capture_case\<close> leaves \<open>v\<close> bound to \<open>7\<close> for the later cases. And on
  \<open>{"id":[7]}\<close> the absent path \<open>id[-1]\<close> makes capture panic instead of binding \<open>nil\<close>.
\<close>

theorem saveVariables_absent_indexed_path_binds_value:
  "saveVariables [(''user'', VStr ''u'')]
       [(''token'', ''data.token''), (''note'', ''data.note'')]
       [(''data'', VMap [(''id'', VInt64 7), (''note'', VNil)])]
     = Inr [(''user'', VStr ''u''), (''token'', VNil), (''note'', VNil)]
   \<and> lookup [(''id'', VInt64 7)] ''id'' = Some (VInt64 7)
   \<and> getValueByPath ''id[0]'' [(''id'', VInt64 7)] = Inr (VInt64 7)
   \<and> saveVariables [] [(''v'', ''id[0]'')] [(''id'', VInt64 7)] = Inr [(''v'', VInt64 7)]
   \<and> saveVariables [] [(''v'', ''data[3]'')] [(''data'', VMap [(''id'', VInt64 7)])]
     = Inr [(''v'', VMap [(''id'', VInt64 7)])]
   \<and> saveVariables [] [(''v'', ''id[-1]'')] [(''id'', VList [VInt64 7])] = Inl IndexOutOfRange
   \<and> runTestCase flaky_collab lib0 runner0 world0 ''flow'' capture_case
     = Inr (\<lparr>Scenario = ''flow'', result_Name = ''get user'', Passed = True, Error = None,
              Response = Some \<lparr>rd_StatusCode = 200, rd_Body = [(''id'', VInt64 7)],
                                rd_Headers = []\<rparr>\<rparr>,
            runner0\<lparr>variables := [(''v'', VInt64 7)]\<rparr>,
            \<lparr>uuid_count = 0, sent = [get_user_request, get_user_request, get_user_request],
              slept = [0, 0]\<rparr>)"
  by code_simp

section \<open>Properties of the assertion evaluator\<close>

subsection \<open>The text of integers\<close>

lemma digit_val_digit_char: "0 \<le> d \<Longrightarrow> d < 10 \<Longrightarrow> digit_val (digit_char d) = d"
proof -
  assume "0 \<le> d" "d < 10"
  then have "d = 0 \<or> d = 1 \<or> d = 2 \<or> d = 3 \<or> d = 4 \<or> d = 5 \<or> d = 6 \<or> d = 7 \<or> d = 8 \<or> d = 9"
    by presburger
  then show ?thesis
    by (auto simp: digit_val_def digit_char_def)
qed

lemma digit_char_not_minus: "0 \<le> d \<Longrightarrow> d < 10 \<Longrightarrow> digit_char d \<noteq> CHR ''-''"
proof -
  assume "0 \<le> d" "d < 10"
  then have "d = 0 \<or> d = 1 \<or> d = 2 \<or> d = 3 \<or> d = 4 \<or> d = 5 \<or> d = 6 \<or> d = 7 \<or> d = 8 \<or> d = 9"
    by presburger
  then show ?thesis
    by (auto simp: digit_char_def)
qed

lemma decimal_val_snoc: "decimal_val (ds @ [c]) = 10 * decimal_val ds + digit_val c"
  by (simp add: decimal_val_def)

lemma decimal_val_int_digits: "0 \<le> n \<Longrightarrow> decimal_val (int_digits n) = n"
proof (induction n rule: int_digits.induct)
  case (1 n)
  show ?case
  proof (cases "n < 10")
    case True
    with "1.prems" show ?thesis
      by (subst int_digits.simps) (simp add: decimal_val_def digit_val_digit_char)
  next
    case False
    with "1.prems" have "decimal_val (int_digits (n div 10)) = n div 10"
      by (intro "1.IH") simp_all
    with False show ?thesis
      by (subst int_digits.simps) (simp add: decimal_val_snoc digit_val_digit_char)
  qed
qed

lemma int_digits_no_minus: "0 \<le> n \<Longrightarrow> CHR ''-'' \<notin> set (int_digits n)"
proof (induction n rule: int_digits.induct)
  case (1 n)
  show ?case
  proof (cases "n < 10")
    case True
    with "1.prems" digit_char_not_minus[of n] show ?thesis
      by (subst int_digits.simps) auto
  next
    case False
    with "1.prems" have "CHR ''-'' \<notin> set (int_digits (n div 10))"
      by (intro "1.IH") simp_all
    moreover have "digit_char (n mod 10) \<noteq> CHR ''-''"
      by (rule digit_char_not_minus) simp_all
    ultimately show ?thesis using False
      by (subst int_digits.simps) auto
  qed
qed

lemma fmt_d_inject: "fmt_d i = fmt_d j \<Longrightarrow> i = j"
proof -
  assume eq: "fmt_d i = fmt_d j"
  have pos: "a = b" if "0 \<le> a" "0 \<le> b" "int_digits a = int_digits b" for a b
    by (metis that decimal_val_int_digits)
  have mixed: False if "a < 0" "0 \<le> b" "fmt_d a = fmt_d b" for a b
  proof -
    from that have "CHR ''-'' # int_digits (- a) = int_digits b"
      by (simp add: fmt_d_def)
    then have "CHR ''-'' \<in> set (int_digits b)"
      by (metis list.set_intros(1))
    with int_digits_no_minus[OF that(2)] show False by simp
  qed
  show ?thesis
  proof (cases "i < 0")
    case True
    show ?thesis
    proof (cases "j < 0")
      case True
      with \<open>i < 0\<close> eq have "int_digits (- i) = int_digits (- j)"
        by (simp add: fmt_d_def)
      with pos[of "- i" "- j"] True \<open>i < 0\<close> show ?thesis by simp
    next
      case False
      with mixed[of i j] True eq show ?thesis by simp
    qed
  next
    case False
    show ?thesis
    proof (cases "j < 0")
      case True
      with mixed[of j i] False eq show ?thesis by simp
    next
      case jpos: False
      with False eq have "int_digits i = int_digits j"
        by (simp add: fmt_d_def)
      with pos[of i j] False jpos show ?thesis by simp
    qed
  qed
qed

subsection \<open>Symmetry and exactness of \<open>valuesEqual\<close> (C8)\<close>

lemma f64_eq_sym: "f64_eq a b = f64_eq b a"
  by (auto simp: f64_eq_def)

lemma valuesEqual_refl_float: "valuesEqual L (VFloat64 x) (VFloat64 x)"
  by (simp add: valuesEqual_def)

text \<open>
  C8 (as amended). \<open>valuesEqual\<close> is symmetric for all values. For two values of the same
  kind among null, booleans, the integer subtypes and strings it agrees with direct
  equality of the values. (Two floats of the same kind are compared by their printed
  text.)
\<close>

theorem valuesEqual_symmetric_and_exact:
  "valuesEqual L a b = valuesEqual L b a
   \<and> (typeName a = typeName b \<and> exact_kind a \<longrightarrow> valuesEqual L a b = (a = b))"
proof
  show "valuesEqual L a b = valuesEqual L b a"
    unfolding valuesEqual_def
    by (auto simp: f64_eq_sym split: option.splits)
next
  have inj: "(fmt_d i = fmt_d j) = (i = j)" for i j
    using fmt_d_inject by blast
  have s64: "(sint x = sint y) = (x = y)" for x y :: "64 word"
    by (auto intro: signed_word_eqI)
  have s32: "(sint x = sint y) = (x = y)" for x y :: "32 word"
    by (auto intro: signed_word_eqI)
  have u64: "(uint x = uint y) = (x = y)" for x y :: "64 word"
    by (auto intro: word_uint_eqI)
  have u32: "(uint x = uint y) = (x = y)" for x y :: "32 word"
    by (auto intro: word_uint_eqI)
  show "typeName a = typeName b \<and> exact_kind a \<longrightarrow> valuesEqual L a b = (a = b)"
    by (cases a; cases b) (simp_all add: valuesEqual_def exact_kind_def inj s64 s32 u64 u32)
qed

theorem valuesEqual_symmetric_and_exact_witness:
  "typeName (VInt64 5) = typeName (VInt64 7) \<and> exact_kind (VInt64 5)
   \<and> valuesEqual lib0 (VInt64 5) (VInt64 7) = valuesEqual lib0 (VInt64 7) (VInt64 5)
   \<and> valuesEqual lib0 (VInt64 5) (VInt64 7) = (VInt64 5 = VInt64 7)
   \<and> valuesEqual lib0 (VInt64 5) (VStr ''5'') = valuesEqual lib0 (VStr ''5'') (VInt64 5)"
proof -
  have h: "typeName (VInt64 5) = typeName (VInt64 7) \<and> exact_kind (VInt64 5)"
    by (simp add: exact_kind_def)
  from valuesEqual_symmetric_and_exact[of lib0 "VInt64 5" "VInt64 7"] h
  have 1: "valuesEqual lib0 (VInt64 5) (VInt64 7) = valuesEqual lib0 (VInt64 7) (VInt64 5)"
    and 2: "valuesEqual lib0 (VInt64 5) (VInt64 7) = (VInt64 5 = VInt64 7)"
    by blast+
  from valuesEqual_symmetric_and_exact[of lib0 "VInt64 5" "VStr ''5''"]
  have 3: "valuesEqual lib0 (VInt64 5) (VStr ''5'') = valuesEqual lib0 (VStr ''5'') (VInt64 5)"
    by blast
  from h 1 2 3 show ?thesis by blast
qed

text \<open>
  The claim as it was stated fails for floats of the same kind: a NaN differs from itself
  under \<open>==\<close>, but two NaNs print alike, so that \<open>valuesEqual\<close> holds of them (for every
  library, since the two texts are the same text).
\<close>

theorem valuesEqual_same_kind_counterexample:
  "typeName (VFloat64 NaN) = typeName (VFloat64 NaN)
   \<and> valuesEqual lib0 (VFloat64 NaN) (VFloat64 NaN)
   \<and> \<not> f64_eq NaN NaN"
  by (simp add: valuesEqual_refl_float f64_eq_def)

subsection \<open>The comparison sites (C7)\<close>





section \<open>Properties of the case scheduler\<close>

subsection \<open>The attempt loop and the retry policy (C2)\<close>





subsection \<open>The dependency gate (C6)\<close>

lemma isDependencyPassed_find:
  "isDependencyPassed rs name
   = (case find (\<lambda>res. result_Name res = name) rs of None \<Rightarrow> False | Some res \<Rightarrow> Passed res)"
  by (induction rs) simp_all

text \<open>
  C6. A test case with a non-empty \<open>depends_on\<close> name, when the Result Accumulator holds
  no result of that name or the result of that name is not Passed, gets from
  \<open>runTestCase\<close> the Failed result with the dependency error; the runner and the world
  come back as they were: no request was built (no identifier drawn) and none was sent.
\<close>

theorem unmet_dependency_fails_without_transport:
  assumes "DependsOn tc \<noteq> []"
    and "case find (\<lambda>res. result_Name res = DependsOn tc) (results r) of
           None \<Rightarrow> True
         | Some res \<Rightarrow> \<not> Passed res"
  shows "runTestCase C L r w scenario tc
       = Inr (\<lparr>Scenario = scenario, result_Name = Name tc, Passed = False,
                Error = Some (DependencyNotPassed (DependsOn tc)), Response = None\<rparr>, r, w)"
proof -
  have "\<not> isDependencyPassed (results r) (DependsOn tc)"
    using assms(2) by (simp add: isDependencyPassed_find split: option.splits)
  with assms(1) show ?thesis
    by (simp add: runTestCase_def failed_def)
qed

theorem unmet_dependency_fails_without_transport_witness:
  "DependsOn (get_user\<lparr>DependsOn := ''X''\<rparr>) \<noteq> []
   \<and> (case find (\<lambda>res. result_Name res = DependsOn (get_user\<lparr>DependsOn := ''X''\<rparr>))
              (results runner0) of
         None \<Rightarrow> True
       | Some res \<Rightarrow> \<not> Passed res)
   \<and> runTestCase flaky_collab lib0 runner0 world0 ''flow'' (get_user\<lparr>DependsOn := ''X''\<rparr>)
     = Inr (\<lparr>Scenario = ''flow'', result_Name = ''get user'', Passed = False,
              Error = Some (DependencyNotPassed ''X''), Response = None\<rparr>, runner0, world0)
   \<and> sent world0 = []"
proof -
  have h1: "DependsOn (get_user\<lparr>DependsOn := ''X''\<rparr>) \<noteq> []"
    by simp
  have h2: "case find (\<lambda>res. result_Name res = DependsOn (get_user\<lparr>DependsOn := ''X''\<rparr>))
              (results runner0) of
         None \<Rightarrow> True
       | Some res \<Rightarrow> \<not> Passed res"
    by (simp add: runner0_def)
  have n: "Name (get_user\<lparr>DependsOn := ''X''\<rparr>) = ''get user''"
    by (simp add: get_user_def)
  have c: "runTestCase flaky_collab lib0 runner0 world0 ''flow'' (get_user\<lparr>DependsOn := ''X''\<rparr>)
     = Inr (\<lparr>Scenario = ''flow'', result_Name = ''get user'', Passed = False,
              Error = Some (DependencyNotPassed ''X''), Response = None\<rparr>, runner0, world0)"
    using unmet_dependency_fails_without_transport[OF h1 h2, of flaky_collab lib0 world0 "''flow''"]
    by (simp add: n)
  have s: "sent world0 = []"
    by (simp add: world0_def)
  show ?thesis
    by (intro conjI) (rule h1, rule h2, rule c, rule s)
qed

subsection \<open>A Retry policy without attempts (C9)\<close>

text \<open>
  C9. With a Retry policy of zero (or fewer) attempts the loop body never runs: \<open>err\<close> is
  still the \<open>nil\<close> of the successful \<open>buildRequest\<close> and \<open>resp\<close> is \<open>nil\<close>, so that
  \<open>defer resp.Body.Close()\<close> dereferences a nil response and \<open>runTestCase\<close> panics
  instead of returning a result. No request is sent before.
\<close>

theorem zero_attempts_nil_response_panic:
  "runTestCase flaky_collab lib0 runner0 world0 ''flow''
     (get_user\<lparr>Retry := Some \<lparr>Times = 0, Interval = 0\<rparr>\<rparr>) = Inl NilPointerDereference
   \<and> runTestCase flaky_collab lib0 runner0 world0 ''flow''
     (get_user\<lparr>Retry := Some \<lparr>Times = - 1, Interval = 100\<rparr>\<rparr>) = Inl NilPointerDereference
   \<and> attempt_loop flaky_collab lib0 runner0 (Request get_user) 0 0 0 (Some get_user_request)
       None world0 = Inr (None, world0)"
  by code_simp

end
